theory Spec2Isabelle
  imports Complex_Main "HOL-Library.Multiset" "HOL-Library.Sublist"
begin

section \<open>Text cells and the numeric-length predicate\<close>

text \<open>
  \<^verbatim>\<open>analyze_results.py\<close> reads \<^verbatim>\<open>gas_results.csv\<close> into a data frame \<^verbatim>\<open>df\<close> and works on
  its two columns, \<^verbatim>\<open>Message Length\<close> and \<^verbatim>\<open>Gas Used\<close>. A Python \<^verbatim>\<open>str\<close> is a sequence of
  Unicode code points, so a text cell is a list of code points here; \<open>ustr\<close> embeds an
  Isabelle string literal.
\<close>

type_synonym pystr = "nat list"

definition ustr :: "string \<Rightarrow> pystr" where
  "ustr s = map of_char s"

text \<open>
  \<^verbatim>\<open>str.isnumeric\<close> (line 10, through \<^verbatim>\<open>Series.str.isnumeric\<close>) holds of a string that has
  at least one character and whose characters all carry the Unicode property
  Numeric Type = Decimal, Digit or Numeric. \<open>numeric_ranges\<close> lists the code points with
  that property as inclusive ranges (Unicode Character Database 14.0.0).
\<close>

definition numeric_ranges :: "(nat \<times> nat) list" where
  "numeric_ranges =
    [(48, 57), (178, 179), (185, 185), (188, 190), (1632, 1641), (1776, 1785), (1984, 1993),
     (2406, 2415), (2534, 2543), (2548, 2553), (2662, 2671), (2790, 2799), (2918, 2927),
     (2930, 2935), (3046, 3058), (3174, 3183), (3192, 3198), (3302, 3311), (3416, 3422),
     (3430, 3448), (3558, 3567), (3664, 3673), (3792, 3801), (3872, 3891), (4160, 4169),
     (4240, 4249), (4969, 4988), (5870, 5872), (6112, 6121), (6128, 6137), (6160, 6169),
     (6470, 6479), (6608, 6618), (6784, 6793), (6800, 6809), (6992, 7001), (7088, 7097),
     (7232, 7241), (7248, 7257), (8304, 8304), (8308, 8313), (8320, 8329), (8528, 8578),
     (8581, 8585), (9312, 9371), (9450, 9471), (10102, 10131), (11517, 11517), (12295, 12295),
     (12321, 12329), (12344, 12346), (12690, 12693), (12832, 12841), (12872, 12879),
     (12881, 12895), (12928, 12937), (12977, 12991), (13317, 13317), (13443, 13443),
     (14378, 14378), (15181, 15181), (19968, 19968), (19971, 19971), (19975, 19975),
     (19977, 19977), (20061, 20061), (20108, 20108), (20116, 20116), (20118, 20118),
     (20159, 20160), (20191, 20191), (20200, 20200), (20237, 20237), (20336, 20336),
     (20740, 20740), (20806, 20806), (20841, 20841), (20843, 20843), (20845, 20845),
     (21313, 21313), (21315, 21317), (21324, 21324), (21441, 21444), (22235, 22235),
     (22769, 22769), (22777, 22777), (24186, 24186), (24318, 24319), (24332, 24334),
     (24336, 24336), (25342, 25342), (25420, 25420), (26578, 26578), (28422, 28422),
     (29590, 29590), (30334, 30334), (32902, 32902), (33836, 33836), (36014, 36014),
     (36019, 36019), (36144, 36144), (38433, 38433), (38470, 38470), (38476, 38476),
     (38520, 38520), (38646, 38646), (42528, 42537), (42726, 42735), (43056, 43061),
     (43216, 43225), (43264, 43273), (43472, 43481), (43504, 43513), (43600, 43609),
     (44016, 44025), (63851, 63851), (63859, 63859), (63864, 63864), (63922, 63922),
     (63953, 63953), (63955, 63955), (63997, 63997), (65296, 65305), (65799, 65843),
     (65856, 65912), (65930, 65931), (66273, 66299), (66336, 66339), (66369, 66369),
     (66378, 66378), (66513, 66517), (66720, 66729), (67672, 67679), (67705, 67711),
     (67751, 67759), (67835, 67839), (67862, 67867), (68028, 68029), (68032, 68047),
     (68050, 68095), (68160, 68168), (68221, 68222), (68253, 68255), (68331, 68335),
     (68440, 68447), (68472, 68479), (68521, 68527), (68858, 68863), (68912, 68921),
     (69216, 69246), (69405, 69414), (69457, 69460), (69573, 69579), (69714, 69743),
     (69872, 69881), (69942, 69951), (70096, 70105), (70113, 70132), (70384, 70393),
     (70736, 70745), (70864, 70873), (71248, 71257), (71360, 71369), (71472, 71483),
     (71904, 71922), (72016, 72025), (72784, 72812), (73040, 73049), (73120, 73129),
     (73664, 73684), (74752, 74862), (92768, 92777), (92864, 92873), (93008, 93017),
     (93019, 93025), (93824, 93846), (119520, 119539), (119648, 119672), (120782, 120831),
     (123200, 123209), (123632, 123641), (125127, 125135), (125264, 125273), (126065, 126123),
     (126125, 126127), (126129, 126132), (126209, 126253), (126255, 126269), (127232, 127244),
     (130032, 130041), (131073, 131073), (131172, 131172), (131298, 131298), (131361, 131361),
     (133418, 133418), (133507, 133507), (133516, 133516), (133532, 133532), (133866, 133866),
     (133885, 133885), (133913, 133913), (140176, 140176), (141720, 141720), (146203, 146203),
     (156269, 156269), (194704, 194704)]"

definition numeric_char :: "nat \<Rightarrow> bool" where
  "numeric_char c = list_ex (\<lambda>(lo, hi). lo \<le> c \<and> c \<le> hi) numeric_ranges"

definition isnumeric :: "pystr \<Rightarrow> bool" where
  "isnumeric s = (s \<noteq> [] \<and> list_all numeric_char s)"

text \<open>The ASCII decimal digits \<^verbatim>\<open>0\<close> .. \<^verbatim>\<open>9\<close>, and the ASCII characters.\<close>

definition ascii_digit :: "nat \<Rightarrow> bool" where
  "ascii_digit c = (48 \<le> c \<and> c \<le> 57)"

definition ascii :: "nat \<Rightarrow> bool" where
  "ascii c = (c < 128)"

section \<open>The data frame and its partition\<close>

text \<open>
  A row of \<^verbatim>\<open>df\<close> has the two text fields of the CSV file. The frame keeps, with every row,
  its index label: \<^verbatim>\<open>read_csv\<close> numbers the rows 0, 1, 2, ... and boolean indexing keeps the
  labels, so a label is the identity of a row. The cells are the fields of the file as
  text; how \<^verbatim>\<open>read_csv\<close> types the two columns is modelled where the script depends on it
  (\<open>numeric_column\<close>, \<open>gas_value\<close> and \<open>script\<close> below).
\<close>

record row =
  message_length :: pystr
  gas_used :: pystr

type_synonym frame = "(nat \<times> row) list"

definition read_rows :: "row list \<Rightarrow> frame" where
  "read_rows rs = enumerate 0 rs"

text \<open>Line 10: \<^verbatim>\<open>numeric_rows = df[df['Message Length'].str.isnumeric()]\<close>.\<close>

definition numeric_rows :: "frame \<Rightarrow> frame" where
  "numeric_rows df = filter (\<lambda>(i, r). isnumeric (message_length r)) df"

text \<open>Line 82: \<^verbatim>\<open>format_rows = df[~df['Message Length'].str.isnumeric()]\<close>.\<close>

definition format_rows :: "frame \<Rightarrow> frame" where
  "format_rows df = filter (\<lambda>(i, r). \<not> isnumeric (message_length r)) df"

section \<open>Numbers\<close>

text \<open>
  The script computes in IEEE double precision. The model computes with exact real numbers
  (no rounding, no overflow) and adds the special values NaN and the two infinities, with
  the arithmetic IEEE gives them.
\<close>

datatype fnum = Finite real | PInf | NInf | NaN

definition fdiv :: "real \<Rightarrow> real \<Rightarrow> fnum" where
  "fdiv a b =
     (if b \<noteq> 0 then Finite (a / b)
      else if a = 0 then NaN
      else if 0 < a then PInf else NInf)"

fun fneg :: "fnum \<Rightarrow> fnum" where
  "fneg (Finite a) = Finite (- a)"
| "fneg PInf = NInf"
| "fneg NInf = PInf"
| "fneg NaN = NaN"

fun fadd :: "fnum \<Rightarrow> fnum \<Rightarrow> fnum" where
  "fadd NaN _ = NaN"
| "fadd _ NaN = NaN"
| "fadd (Finite a) (Finite b) = Finite (a + b)"
| "fadd PInf NInf = NaN"
| "fadd NInf PInf = NaN"
| "fadd PInf _ = PInf"
| "fadd _ PInf = PInf"
| "fadd NInf _ = NInf"
| "fadd _ NInf = NInf"

definition fsub :: "fnum \<Rightarrow> fnum \<Rightarrow> fnum" where
  "fsub a b = fadd a (fneg b)"

definition inf_times :: "bool \<Rightarrow> real \<Rightarrow> fnum" where
  \<comment> \<open>an infinity (positive when the flag is set) times a finite number\<close>
  "inf_times pos a =
     (if a = 0 then NaN else if (0 < a) = pos then PInf else NInf)"

fun fmul :: "fnum \<Rightarrow> fnum \<Rightarrow> fnum" where
  "fmul NaN _ = NaN"
| "fmul _ NaN = NaN"
| "fmul (Finite a) (Finite b) = Finite (a * b)"
| "fmul PInf (Finite b) = inf_times True b"
| "fmul NInf (Finite b) = inf_times False b"
| "fmul (Finite a) PInf = inf_times True a"
| "fmul (Finite a) NInf = inf_times False a"
| "fmul PInf PInf = PInf"
| "fmul NInf NInf = PInf"
| "fmul PInf NInf = NInf"
| "fmul NInf PInf = NInf"

subsection \<open>Fixed-point formatting\<close>

text \<open>
  \<^verbatim>\<open>f"{v:.2f}"\<close> and \<^verbatim>\<open>f"{v:.4f}"\<close>: the value rounded to \<open>d\<close> decimals, ties to even, with
  a minus sign for a negative value, and \<^verbatim>\<open>nan\<close>, \<^verbatim>\<open>inf\<close>, \<^verbatim>\<open>-inf\<close> for the special values.
\<close>

definition round_half_even :: "real \<Rightarrow> int" where
  "round_half_even y =
     (let f = \<lfloor>y\<rfloor>; d = y - of_int f
      in if d < 1 / 2 then f
         else if 1 / 2 < d then f + 1
         else if even f then f else f + 1)"

fun digits :: "nat \<Rightarrow> pystr" where
  "digits n = (if n < 10 then [48 + n] else digits (n div 10) @ [48 + n mod 10])"

declare digits.simps [simp del]

definition zero_pad :: "nat \<Rightarrow> pystr \<Rightarrow> pystr" where
  "zero_pad d s = replicate (d - length s) 48 @ s"

definition fmt :: "nat \<Rightarrow> fnum \<Rightarrow> pystr" where
  "fmt d v =
     (case v of
        NaN \<Rightarrow> ustr ''nan''
      | PInf \<Rightarrow> ustr ''inf''
      | NInf \<Rightarrow> ustr ''-inf''
      | Finite x \<Rightarrow>
          (let q = nat (round_half_even (\<bar>x\<bar> * 10 ^ d))
           in (if x < 0 then ustr ''-'' else [])
              @ digits (q div 10 ^ d)
              @ (if d = 0 then [] else ustr ''.'' @ zero_pad d (digits (q mod 10 ^ d)))))"

section \<open>Library calls: reading, conversion and regression\<close>

datatype error = AttributeError | ValueError_parse | ValueError_empty | ValueError_identical_x

text \<open>
  How pandas reads a text as a number (\<^verbatim>\<open>read_csv\<close> when it types a column,
  \<^verbatim>\<open>pd.to_numeric\<close> at lines 14 and 15) is a parameter of the model: \<open>Some v\<close> for the
  number read, \<open>None\<close> for a text that is no number, on which \<^verbatim>\<open>pd.to_numeric\<close> raises
  \<^verbatim>\<open>ValueError\<close>. Numbers are finite; a text read as an infinity is not modelled.
\<close>

type_synonym converter = "pystr \<Rightarrow> real option"

text \<open>
  A field that is one of the missing-value markers of \<^verbatim>\<open>read_csv\<close> is read as NaN. No
  marker passes \<^verbatim>\<open>str.isnumeric\<close>, so a missing length is not a numeric row at line 10
  (pandas 3; earlier versions refuse a mask with a missing entry), and the lengths that
  line 14 converts are never missing.
\<close>

definition na_values :: "pystr list" where
  "na_values =
     map ustr
       [[], ''#N/A'', ''#N/A N/A'', ''#NA'', ''-1.#IND'', ''-1.#QNAN'', ''-NaN'', ''-nan'',
        ''1.#IND'', ''1.#QNAN'', ''<NA>'', ''N/A'', ''NA'', ''NULL'', ''NaN'', ''None'',
        ''n/a'', ''nan'', ''null'']"

definition missing :: "pystr \<Rightarrow> bool" where
  "missing c = (c \<in> set na_values)"

text \<open>A \<^verbatim>\<open>Gas Used\<close> cell as a number: the number read, or NaN for a missing cell.\<close>

datatype reading = Number real | Nan

definition gas_value :: "converter \<Rightarrow> pystr \<Rightarrow> reading option" where
  "gas_value conv c = (if missing c then Some Nan else map_option Number (conv c))"

text \<open>
  \<^verbatim>\<open>pd.to_numeric\<close> on a column converts every cell and raises at the first cell it
  cannot read.
\<close>

fun to_numeric :: "(pystr \<Rightarrow> 'a option) \<Rightarrow> pystr list \<Rightarrow> error + 'a list" where
  "to_numeric conv [] = Inr []"
| "to_numeric conv (c # cs) =
     (case conv c of
        None \<Rightarrow> Inl ValueError_parse
      | Some v \<Rightarrow>
          (case to_numeric conv cs of
             Inl e \<Rightarrow> Inl e
           | Inr vs \<Rightarrow> Inr (v # vs)))"

text \<open>
  \<^verbatim>\<open>read_csv\<close> gives a column a numeric type when it has a cell and every cell is a
  number or missing; otherwise the column is text (a column that it would read as
  booleans is not modelled).
\<close>

definition numeric_column :: "converter \<Rightarrow> pystr list \<Rightarrow> bool" where
  "numeric_column conv cells =
     (cells \<noteq> [] \<and> list_all (\<lambda>c. missing c \<or> conv c \<noteq> None) cells)"

text \<open>
  The converter of the examples: a cell of ASCII decimal digits, with or without a leading
  minus sign, is read as the whole number it writes; any other cell is no number.
\<close>

definition decimal :: "pystr \<Rightarrow> nat" where
  "decimal s = foldl (\<lambda>acc c. 10 * acc + (c - 48)) 0 s"

definition decimal_cell :: converter where
  "decimal_cell s =
     (if s \<noteq> [] \<and> list_all ascii_digit s then Some (real (decimal s))
      else if s \<noteq> [] \<and> hd s = 45 \<and> tl s \<noteq> [] \<and> list_all ascii_digit (tl s)
        then Some (- real (decimal (tl s)))
      else None)"

text \<open>
  \<^verbatim>\<open>scipy.stats.linregress(x, y)\<close> (lines 21 and 49), as of SciPy 1.17. The function
  body, in the order of its own steps: it rejects empty input, rejects two or more points
  whose \<open>x\<close> are all equal, takes the means and the biased (co)variances
  \<^verbatim>\<open>np.cov(x, y, bias=1)\<close>, sets \<open>r\<close> to NaN when a variance is 0 (to 0 should the
  covariance not be 0 then) and clamps it to \<open>[-1, 1]\<close> otherwise, and divides for the
  slope. The script reads \<open>slope\<close>, \<open>intercept\<close> and \<open>rvalue\<close>; the p-value and the
  standard error it binds are never used and are left out.
\<close>

record regression =
  slope :: fnum
  intercept :: fnum
  rvalue :: fnum

definition mean :: "real list \<Rightarrow> real" where
  "mean vs = sum_list vs / real (length vs)"

definition linregress_body :: "(real \<times> real) list \<Rightarrow> error + regression" where
  "linregress_body pts =
     (let x = map fst pts; y = map snd pts
      in if x = [] \<or> y = [] then Inl ValueError_empty
         else if Max (set x) = Min (set x) \<and> 1 < length x then Inl ValueError_identical_x
         else
           let xmean = mean x;
               ymean = mean y;
               ssxm = mean (map (\<lambda>a. (a - xmean) * (a - xmean)) x);
               ssxym = mean (map (\<lambda>(a, b). (a - xmean) * (b - ymean)) pts);
               ssym = mean (map (\<lambda>b. (b - ymean) * (b - ymean)) y);
               r = (if ssxm = 0 \<or> ssym = 0 then (if ssxym = 0 then NaN else Finite 0)
                    else let q = ssxym / sqrt (ssxm * ssym)
                         in if 1 < q then Finite 1
                            else if q < - 1 then Finite (- 1) else Finite q);
               sl = fdiv ssxym ssxm;
               ic = fsub (Finite ymean) (fmul sl (Finite xmean))
           in Inr \<lparr>slope = sl, intercept = ic, rvalue = r\<rparr>)"

text \<open>
  The function is wrapped: for a sample of fewer than two points, and for a sample that
  holds a NaN, every output is NaN and the body is not run. \<open>number\<close> is applied to cells
  that are not NaN only.
\<close>

definition nan_result :: regression where
  "nan_result = \<lparr>slope = NaN, intercept = NaN, rvalue = NaN\<rparr>"

definition number :: "reading \<Rightarrow> real" where
  "number v = (case v of Number a \<Rightarrow> a | Nan \<Rightarrow> 0)"

definition linregress :: "(real \<times> reading) list \<Rightarrow> error + regression" where
  "linregress pts =
     (if length pts \<le> 1 \<or> Nan \<in> set (map snd pts) then Inr nan_result
      else linregress_body (map (\<lambda>(x, y). (x, number y)) pts))"

definition r_squared :: "regression \<Rightarrow> fnum" where
  \<comment> \<open>\<^verbatim>\<open>r_value**2\<close>, as the labels and the report compute it\<close>
  "r_squared f = fmul (rvalue f) (rvalue f)"

section \<open>The run\<close>

text \<open>
  A run is observed through the calls it makes, in program order: the two regression
  calls, the plotting calls, the write of the image file and the prints.
  \<^verbatim>\<open>print(format_rows)\<close> is recorded with the frame it is given; how pandas lays a frame
  out as text is not part of the model.
\<close>

datatype event =
    Call_linregress "(real \<times> reading) list"
  | Figure
  | Subplot nat
  | Scatter "(real \<times> reading) list"
  | Plot "real list" "fnum list" pystr pystr
  | Title pystr
  | Xlabel pystr
  | Ylabel pystr
  | Legend
  | Grid
  | Tight_layout
  | Savefig pystr
  | Print pystr
  | Print_frame frame

text \<open>
  \<^verbatim>\<open>np.linspace(start, stop, num)\<close> and the prediction line
  \<^verbatim>\<open>intercept + slope * x_pred\<close> (lines 26, 27, 53 and 54).
\<close>

definition linspace :: "real \<Rightarrow> real \<Rightarrow> nat \<Rightarrow> real list" where
  "linspace start stop num =
     map (\<lambda>i. start + real i * ((stop - start) / real (num - 1))) [0..<num]"

definition predict :: "regression \<Rightarrow> real list \<Rightarrow> fnum list" where
  "predict f xs = map (\<lambda>x. fadd (intercept f) (fmul (slope f) (Finite x))) xs"

text \<open>The legend label of lines 35 and 58; code point 178 is the superscript two.\<close>

definition fit_label :: "regression \<Rightarrow> pystr" where
  "fit_label f =
     ustr ''y = '' @ fmt 2 (intercept f) @ ustr '' + '' @ fmt 2 (slope f)
     @ ustr ''x (R'' @ [178] @ ustr '' = '' @ fmt 4 (r_squared f) @ ustr '')''"

definition axes_decoration :: "pystr \<Rightarrow> event list" where
  "axes_decoration title =
     [Title title, Xlabel (ustr ''Message Length (bytes)''), Ylabel (ustr ''Gas Used''),
      Legend, Grid]"

text \<open>Lines 26 to 41: the first panel, all numeric rows and the full fit.\<close>

definition full_panel :: "regression \<Rightarrow> (real \<times> reading) list \<Rightarrow> event list" where
  "full_panel f pts =
     (let x_pred = linspace 0 (Max (set (map fst pts)) * 1.1) 100
      in [Figure, Subplot 1, Scatter pts,
          Plot x_pred (predict f x_pred) (ustr ''r--'') (fit_label f)]
         @ axes_decoration (ustr ''Gas Usage vs Message Length''))"

text \<open>Lines 53 to 64: the content of the second panel.\<close>

definition small_panel :: "regression \<Rightarrow> (real \<times> reading) list \<Rightarrow> event list" where
  "small_panel f small_df =
     (let small_x_pred = linspace 0 200 100
      in [Scatter small_df,
          Plot small_x_pred (predict f small_x_pred) (ustr ''g--'') (fit_label f)]
         @ axes_decoration (ustr ''Gas Usage (Small Messages)''))"

text \<open>The three report lines of a fit (lines 71 to 73 and 77 to 79).\<close>

definition report_lines :: "regression \<Rightarrow> event list" where
  "report_lines f =
     [Print (ustr ''Base gas cost: '' @ fmt 2 (intercept f) @ ustr '' gas units''),
      Print (ustr ''Marginal cost per byte: '' @ fmt 2 (slope f) @ ustr '' gas units''),
      Print (ustr ''R-squared: '' @ fmt 4 (r_squared f))]"

definition full_report :: "regression \<Rightarrow> event list" where
  "full_report f = Print (ustr ''Gas Regression Analysis:'') # report_lines f"

text \<open>Code point 10 is the newline, 8804 the less-or-equal sign of line 76.\<close>

definition small_report :: "regression \<Rightarrow> event list" where
  "small_report f =
     Print ([10] @ ustr ''Small Message Analysis ('' @ [8804] @ ustr '' 200 bytes):'')
     # report_lines f"

text \<open>
  Lines 21 to 79, on the converted and sorted numeric rows: the full fit, the first
  panel, the small-message fit over the rows of length at most 200 when there are any,
  the image file and the report. The result is the calls made and the exception that
  ended the stage, if one did.
\<close>

definition fit_and_report :: "(real \<times> reading) list \<Rightarrow> event list \<times> error option" where
  "fit_and_report pts =
     (case linregress pts of
        Inl e \<Rightarrow> ([Call_linregress pts], Some e)
      | Inr full \<Rightarrow>
     (let panel1 = Call_linregress pts # full_panel full pts @ [Subplot 2];
          small_df = filter (\<lambda>(x, y). x \<le> 200) pts
      in if small_df \<noteq> [] then
           (case linregress small_df of
              Inl e \<Rightarrow> (panel1 @ [Call_linregress small_df], Some e)
            | Inr small \<Rightarrow>
                (panel1 @ Call_linregress small_df # small_panel small small_df
                 @ [Tight_layout, Savefig (ustr ''gas_analysis.png'')]
                 @ full_report full @ small_report small, None))
         else
           (panel1 @ [Tight_layout, Savefig (ustr ''gas_analysis.png'')]
            @ full_report full, None)))"

text \<open>
  Lines 13 to 79, entered when \<^verbatim>\<open>numeric_rows\<close> is not empty: both columns are converted
  (the lengths from text, the gas cells to a number or NaN), the rows are sorted by
  length (\<^verbatim>\<open>sort_values\<close>; the order it gives to rows of equal length does not matter to
  the fit, which depends on the multiset of points only), and the fits and the report
  follow.
\<close>

definition numeric_stage :: "converter \<Rightarrow> frame \<Rightarrow> event list \<times> error option" where
  "numeric_stage conv nrows =
     (case to_numeric conv (map (message_length \<circ> snd) nrows) of
        Inl e \<Rightarrow> ([], Some e)
      | Inr xs \<Rightarrow>
     (case to_numeric (gas_value conv) (map (gas_used \<circ> snd) nrows) of
        Inl e \<Rightarrow> ([], Some e)
      | Inr ys \<Rightarrow> fit_and_report (sort_key fst (zip xs ys))))"

text \<open>Lines 82 to 85: the dump of the special-format rows.\<close>

definition special_dump :: "frame \<Rightarrow> event list" where
  "special_dump df =
     (let special = format_rows df
      in if special \<noteq> [] then
           [Print ([10] @ ustr ''Special Format Analysis:''), Print_frame special]
         else [])"

text \<open>Lines 10 to 85 on a frame whose \<^verbatim>\<open>Message Length\<close> column is text.\<close>

definition analyze :: "converter \<Rightarrow> frame \<Rightarrow> event list \<times> error option" where
  "analyze conv df =
     (let nrows = numeric_rows df;
          (calls, raised) = (if nrows \<noteq> [] then numeric_stage conv nrows else ([], None))
      in case raised of
           Some e \<Rightarrow> (calls, Some e)
         | None \<Rightarrow> (calls @ special_dump df, None))"

text \<open>
  The whole script on the rows of the file. When \<^verbatim>\<open>read_csv\<close> has given the
  \<^verbatim>\<open>Message Length\<close> column a numeric type, the \<^verbatim>\<open>.str\<close> accessor of line 10 raises
  \<^verbatim>\<open>AttributeError\<close> and nothing is output.
\<close>

definition script :: "converter \<Rightarrow> row list \<Rightarrow> event list \<times> error option" where
  "script conv rows =
     (if numeric_column conv (map message_length rows) then ([], Some AttributeError)
      else analyze conv (read_rows rows))"

text \<open>
  Projections of a trace: the arguments of the regression calls, the lines printed, the
  frames printed, the files written, and the points and lines plotted.
\<close>

definition regress_args :: "event list \<Rightarrow> (real \<times> reading) list list" where
  "regress_args tr = concat (map (\<lambda>e. case e of Call_linregress p \<Rightarrow> [p] | _ \<Rightarrow> []) tr)"

definition printed :: "event list \<Rightarrow> pystr list" where
  "printed tr = concat (map (\<lambda>e. case e of Print s \<Rightarrow> [s] | _ \<Rightarrow> []) tr)"

definition dumped :: "event list \<Rightarrow> frame list" where
  "dumped tr = concat (map (\<lambda>e. case e of Print_frame f \<Rightarrow> [f] | _ \<Rightarrow> []) tr)"

definition saved :: "event list \<Rightarrow> pystr list" where
  "saved tr = concat (map (\<lambda>e. case e of Savefig p \<Rightarrow> [p] | _ \<Rightarrow> []) tr)"

definition plotted :: "event list \<Rightarrow> event list" where
  "plotted tr =
     filter (\<lambda>e. case e of Scatter _ \<Rightarrow> True | Plot _ _ _ _ \<Rightarrow> True | _ \<Rightarrow> False) tr"

section \<open>Example inputs\<close>

text \<open>The four rows of the end-to-end example of the specification.\<close>

definition example_rows :: "row list" where
  "example_rows =
     [\<lparr>message_length = ustr ''10'', gas_used = ustr ''1200''\<rparr>,
      \<lparr>message_length = ustr ''50'', gas_used = ustr ''3700''\<rparr>,
      \<lparr>message_length = ustr ''100'', gas_used = ustr ''6200''\<rparr>,
      \<lparr>message_length = ustr ''abc-test'', gas_used = ustr ''1500''\<rparr>]"

text \<open>One numeric row and one special-format row.\<close>

definition one_numeric_rows :: "row list" where
  "one_numeric_rows =
     [\<lparr>message_length = ustr ''5'', gas_used = ustr ''100''\<rparr>,
      \<lparr>message_length = ustr ''abc-test'', gas_used = ustr ''1500''\<rparr>]"

text \<open>Whole numbers with a sign only: no numeric row, and a column of numbers.\<close>

definition signed_rows :: "row list" where
  "signed_rows =
     [\<lparr>message_length = ustr ''-5'', gas_used = ustr ''300''\<rparr>,
      \<lparr>message_length = ustr ''-12'', gas_used = ustr ''400''\<rparr>]"

text \<open>A length of the single character U+00B2, superscript two.\<close>

definition superscript_rows :: "row list" where
  "superscript_rows =
     [\<lparr>message_length = [178], gas_used = ustr ''21000''\<rparr>,
      \<lparr>message_length = ustr ''abc-test'', gas_used = ustr ''1500''\<rparr>]"

text \<open>Lengths on both sides of the bound of the small-message subset, out of order.\<close>

definition boundary_rows :: "row list" where
  "boundary_rows =
     [\<lparr>message_length = ustr ''201'', gas_used = ustr ''10750''\<rparr>,
      \<lparr>message_length = ustr ''abc-test'', gas_used = ustr ''1500''\<rparr>,
      \<lparr>message_length = ustr ''200'', gas_used = ustr ''10700''\<rparr>]"

text \<open>Two numeric rows of the same length around a special-format row.\<close>

definition identical_rows :: "row list" where
  "identical_rows =
     [\<lparr>message_length = ustr ''5'', gas_used = ustr ''100''\<rparr>,
      \<lparr>message_length = ustr ''abc-test'', gas_used = ustr ''1500''\<rparr>,
      \<lparr>message_length = ustr ''5'', gas_used = ustr ''200''\<rparr>]"

text \<open>Signed, floating-point and named lengths: special-format rows only.\<close>

definition special_only_rows :: "row list" where
  "special_only_rows =
     [\<lparr>message_length = ustr ''-5'', gas_used = ustr ''300''\<rparr>,
      \<lparr>message_length = ustr ''1.5'', gas_used = ustr ''400''\<rparr>,
      \<lparr>message_length = ustr ''abc-test'', gas_used = ustr ''1500''\<rparr>]"



text \<open>Two numeric rows, the second with an empty gas field.\<close>

definition missing_gas_rows :: "row list" where
  "missing_gas_rows =
     [\<lparr>message_length = ustr ''10'', gas_used = ustr ''1200''\<rparr>,
      \<lparr>message_length = ustr ''50'', gas_used = []\<rparr>,
      \<lparr>message_length = ustr ''abc-test'', gas_used = ustr ''1500''\<rparr>]"

section \<open>Auxiliary facts\<close>

subsection \<open>Classification and conversion\<close>

lemma numeric_char_ascii: "c < 128 \<Longrightarrow> numeric_char c = ascii_digit c"
  by (simp add: numeric_char_def numeric_ranges_def ascii_digit_def)

lemma isnumeric_ascii:
  "list_all ascii s \<Longrightarrow> isnumeric s = (s \<noteq> [] \<and> list_all ascii_digit s)"
  unfolding isnumeric_def
  by (induction s) (auto simp: ascii_def numeric_char_ascii)

lemma missing_not_numeric: "missing c \<Longrightarrow> \<not> isnumeric c"
proof -
  assume m: "missing c"
  have a: "list_all ascii c"
    using m by (auto simp: missing_def na_values_def ustr_def ascii_def)
  have "c = [] \<or> \<not> list_all ascii_digit c"
    using m by (auto simp: missing_def na_values_def ustr_def ascii_digit_def)
  then show ?thesis using isnumeric_ascii [OF a] by auto
qed

lemmas classify =
  numeric_rows_def format_rows_def isnumeric_def numeric_char_def numeric_ranges_def
  read_rows_def

lemmas convert =
  numeric_stage_def decimal_cell_def decimal_def ustr_def ascii_digit_def gas_value_def
  missing_def na_values_def

subsection \<open>Means and the regression\<close>

lemma sum_list_mset_cong:
  "mset ps = mset qs \<Longrightarrow> sum_list (map f ps) = (sum_list (map f qs) :: real)"
proof -
  assume h: "mset ps = mset qs"
  have "sum_mset (mset (map f ps)) = sum_mset (mset (map f qs))" using h by simp
  then show ?thesis by (simp only: sum_mset_sum_list)
qed

lemma mean_mset_cong: "mset ps = mset qs \<Longrightarrow> mean (map f ps) = mean (map f qs)"
  unfolding mean_def using sum_list_mset_cong[of ps qs f] mset_eq_length[of ps qs] by simp

lemma linregress_body_mset:
  "mset ps = mset qs \<Longrightarrow> linregress_body ps = linregress_body qs"
proof -
  assume h: "mset ps = mset qs"
  have hx: "mset (map fst ps) = mset (map fst qs)" using h by simp
  have hy: "mset (map snd ps) = mset (map snd qs)" using h by simp
  have s: "set (map fst ps) = set (map fst qs)" using hx by (rule mset_eq_setD)
  have l: "length ps = length qs" using h by (rule mset_eq_length)
  have e: "(ps = []) = (qs = [])" using l by auto
  have m1: "mean (map fst ps) = mean (map fst qs)" by (rule mean_mset_cong[OF h])
  have m2: "mean (map snd ps) = mean (map snd qs)" by (rule mean_mset_cong[OF h])
  have m3: "\<And>g. mean (map g (map fst ps)) = mean (map g (map fst qs))"
    by (rule mean_mset_cong[OF hx])
  have m4: "\<And>g. mean (map g (map snd ps)) = mean (map g (map snd qs))"
    by (rule mean_mset_cong[OF hy])
  have m5: "\<And>g. mean (map g ps) = mean (map g qs)" by (rule mean_mset_cong[OF h])
  show ?thesis
    unfolding linregress_body_def Let_def m1 m2 m3 m4 m5 s l e length_map map_is_Nil_conv ..
qed

lemma linregress_small: "length pts \<le> 1 \<Longrightarrow> linregress pts = Inr nan_result"
  by (simp add: linregress_def)

lemma linregress_single: "linregress [(x, y)] = Inr nan_result"
  by (simp add: linregress_def)

lemma linregress_missing: "Nan \<in> snd ` set pts \<Longrightarrow> linregress pts = Inr nan_result"
  by (simp add: linregress_def)

lemma linregress_numbers:
  "2 \<le> length pts \<Longrightarrow> Nan \<notin> snd ` set pts \<Longrightarrow>
   linregress pts = linregress_body (map (\<lambda>(x, y). (x, number y)) pts)"
  by (simp add: linregress_def)

lemma linregress_identical:
  "2 \<le> length pts \<Longrightarrow> Nan \<notin> snd ` set pts \<Longrightarrow> \<forall>p\<in>set pts. fst p = c \<Longrightarrow>
   linregress pts = Inl ValueError_identical_x"
proof -
  assume len: "2 \<le> length pts" and nn: "Nan \<notin> snd ` set pts"
    and same: "\<forall>p\<in>set pts. fst p = c"
  let ?ps = "map (\<lambda>(x, y). (x, number y)) pts"
  have ne: "pts \<noteq> []" using len by auto
  have fs: "map fst ?ps = map fst pts" by (simp add: case_prod_unfold comp_def)
  have "set (map fst pts) = {c}" using ne same by (cases pts) auto
  then have "Max (set (map fst ?ps)) = Min (set (map fst ?ps))" unfolding fs by simp
  then have "linregress_body ?ps = Inl ValueError_identical_x"
    using len ne by (simp add: linregress_body_def Let_def)
  then show ?thesis using linregress_numbers [OF len nn] by simp
qed

lemma linregress_body_returns:
  "pts \<noteq> [] \<Longrightarrow> Max (set (map fst pts)) \<noteq> Min (set (map fst pts)) \<Longrightarrow>
   linregress_body pts = Inr (projr (linregress_body pts))"
  by (simp add: linregress_body_def Let_def)

lemma rvalue_body_range:
  "linregress_body pts = Inr f \<Longrightarrow>
   rvalue f = NaN \<or> (\<exists>v. rvalue f = Finite v \<and> - 1 \<le> v \<and> v \<le> 1)"
  by (auto simp: linregress_body_def Let_def split: if_splits)

lemma variance_zero:
  "xs \<noteq> [] \<Longrightarrow> mean (map (\<lambda>a. (a - m) * (a - m)) xs) = 0 \<Longrightarrow> \<forall>a\<in>set xs. a = m"
proof -
  assume ne: "xs \<noteq> []" and z: "mean (map (\<lambda>a. (a - m) * (a - m)) xs) = 0"
  have "sum_list (map (\<lambda>a. (a - m) * (a - m)) xs) = 0"
    using ne z by (simp add: mean_def)
  moreover have "\<forall>v\<in>set (map (\<lambda>a. (a - m) * (a - m)) xs). 0 \<le> v" by auto
  ultimately have "\<forall>v\<in>set (map (\<lambda>a. (a - m) * (a - m)) xs). v = 0"
    using sum_list_nonneg_eq_0_iff by blast
  then show ?thesis by auto
qed

lemma linregress_body_finite_r:
  "(\<exists>a\<in>set (map fst pts). \<exists>b\<in>set (map fst pts). a \<noteq> b) \<Longrightarrow>
   (\<exists>a\<in>set (map snd pts). \<exists>b\<in>set (map snd pts). a \<noteq> b) \<Longrightarrow>
   \<exists>f v. linregress_body pts = Inr f \<and> rvalue f = Finite v \<and> - 1 \<le> v \<and> v \<le> 1"
proof -
  assume dx: "\<exists>a\<in>set (map fst pts). \<exists>b\<in>set (map fst pts). a \<noteq> b"
    and dy: "\<exists>a\<in>set (map snd pts). \<exists>b\<in>set (map snd pts). a \<noteq> b"
  let ?x = "map fst pts" and ?y = "map snd pts"
  have ne: "pts \<noteq> []" using dx by auto
  have xne: "?x \<noteq> []" and yne: "?y \<noteq> []" using ne by simp_all
  have mm: "Max (set ?x) \<noteq> Min (set ?x)"
  proof
    assume eq: "Max (set ?x) = Min (set ?x)"
    have "\<forall>a\<in>set ?x. a = Min (set ?x)"
    proof
      fix a assume a: "a \<in> set ?x"
      have "Min (set ?x) \<le> a" using a by simp
      moreover have "a \<le> Max (set ?x)" using a by simp
      ultimately show "a = Min (set ?x)" using eq by simp
    qed
    with dx show False by metis
  qed
  have vx: "mean (map (\<lambda>a. (a - mean ?x) * (a - mean ?x)) ?x) \<noteq> 0"
  proof
    assume "mean (map (\<lambda>a. (a - mean ?x) * (a - mean ?x)) ?x) = 0"
    from variance_zero [OF xne this] dx show False by metis
  qed
  have vy: "mean (map (\<lambda>b. (b - mean ?y) * (b - mean ?y)) ?y) \<noteq> 0"
  proof
    assume "mean (map (\<lambda>b. (b - mean ?y) * (b - mean ?y)) ?y) = 0"
    from variance_zero [OF yne this] dy show False by metis
  qed
  obtain f where f: "linregress_body pts = Inr f"
    using linregress_body_returns [OF ne mm] by blast
  have "\<exists>v. rvalue f = Finite v \<and> - 1 \<le> v \<and> v \<le> 1"
    using f ne mm vx vy
    by (auto simp: linregress_body_def Let_def split: if_splits)
  with f show ?thesis by blast
qed

text \<open>The fit of the three numeric points of the end-to-end example.\<close>

lemma sqrt_example: "75000 < sqrt (152500000000 / 27)"
  by (rule real_less_rsqrt) simp

lemma linregress_example:
  "linregress [(10, Number 1200), (50, Number 3700), (100, Number 6200)] =
     Inr \<lparr>slope = Finite (3375 / 61), intercept = Finite (45700 / 61),
          rvalue = Finite (75000 / sqrt (152500000000 / 27))\<rparr>"
proof -
  have pos: "\<not> 75000 / sqrt (152500000000 / 27) < - 1"
    using sqrt_example by (simp add: not_less order_trans[of "- 1" 0])
  have lt: "\<not> sqrt (152500000000 / 27) < 75000"
    using sqrt_example by simp
  show ?thesis
    using pos lt
    by (simp add: linregress_def number_def linregress_body_def mean_def fdiv_def fsub_def
        Let_def del: real_sqrt_gt_1_iff real_sqrt_lt_1_iff)
qed

lemma r_squared_example:
  "r_squared \<lparr>slope = s, intercept = i, rvalue = Finite (75000 / sqrt (152500000000 / 27))\<rparr>
     = Finite (243 / 244)"
  by (simp add: r_squared_def)

lemma fmt_example:
  "fmt 2 (Finite (45700 / 61)) = ustr ''749.18''"
  "fmt 2 (Finite (3375 / 61)) = ustr ''55.33''"
  "fmt 4 (Finite (243 / 244)) = ustr ''0.9959''"
  by (simp_all add: fmt_def round_half_even_def ustr_def zero_pad_def digits.simps)

text \<open>The fit of the two rows at the bound of the small-message subset.\<close>

lemma sqrt_boundary: "sqrt (625 / 4) = 25 / 2"
  by (rule real_sqrt_unique) (simp_all add: power2_eq_square)

lemma linregress_boundary:
  "linregress [(200, Number 10700), (201, Number 10750)] =
     Inr \<lparr>slope = Finite 50, intercept = Finite 700, rvalue = Finite 1\<rparr>"
  by (simp add: linregress_def number_def linregress_body_def mean_def fdiv_def fsub_def
        Let_def sqrt_boundary del: real_sqrt_gt_1_iff real_sqrt_lt_1_iff)

subsection \<open>Projections of a trace\<close>

lemma regress_args_simps [simp]:
  "regress_args [] = []"
  "regress_args (a @ b) = regress_args a @ regress_args b"
  "regress_args (Call_linregress p # tr) = p # regress_args tr"
  "regress_args (full_panel f pts) = []"
  "regress_args (small_panel f pts) = []"
  "regress_args (full_report f) = []"
  "regress_args (small_report f) = []"
  "regress_args (Subplot n # tr) = regress_args tr"
  "regress_args (Tight_layout # tr) = regress_args tr"
  "regress_args (Savefig s # tr) = regress_args tr"
  "regress_args (Print s # tr) = regress_args tr"
  "regress_args (Print_frame fr # tr) = regress_args tr"
  by (simp_all add: regress_args_def full_panel_def small_panel_def full_report_def
      small_report_def report_lines_def axes_decoration_def Let_def)

lemma saved_simps [simp]:
  "saved [] = []"
  "saved (a @ b) = saved a @ saved b"
  "saved (Call_linregress p # tr) = saved tr"
  "saved (full_panel f pts) = []"
  "saved (small_panel f pts) = []"
  "saved (full_report f) = []"
  "saved (small_report f) = []"
  "saved (Subplot n # tr) = saved tr"
  "saved (Tight_layout # tr) = saved tr"
  "saved (Savefig s # tr) = s # saved tr"
  "saved (Print s # tr) = saved tr"
  "saved (Print_frame fr # tr) = saved tr"
  by (simp_all add: saved_def full_panel_def small_panel_def full_report_def
      small_report_def report_lines_def axes_decoration_def Let_def)

lemma printed_simps [simp]:
  "printed [] = []"
  "printed (a @ b) = printed a @ printed b"
  "printed (Call_linregress p # tr) = printed tr"
  "printed (full_panel f pts) = []"
  "printed (small_panel f pts) = []"
  "printed (Subplot n # tr) = printed tr"
  "printed (Tight_layout # tr) = printed tr"
  "printed (Savefig s # tr) = printed tr"
  "printed (Print s # tr) = s # printed tr"
  "printed (Print_frame fr # tr) = printed tr"
  by (simp_all add: printed_def full_panel_def small_panel_def axes_decoration_def Let_def)

lemma dumped_simps [simp]:
  "dumped [] = []"
  "dumped (a @ b) = dumped a @ dumped b"
  "dumped (Call_linregress p # tr) = dumped tr"
  "dumped (full_panel f pts) = []"
  "dumped (small_panel f pts) = []"
  "dumped (full_report f) = []"
  "dumped (small_report f) = []"
  "dumped (Subplot n # tr) = dumped tr"
  "dumped (Tight_layout # tr) = dumped tr"
  "dumped (Savefig s # tr) = dumped tr"
  "dumped (Print s # tr) = dumped tr"
  "dumped (Print_frame fr # tr) = fr # dumped tr"
  by (simp_all add: dumped_def full_panel_def small_panel_def full_report_def
      small_report_def report_lines_def axes_decoration_def Let_def)

lemma plotted_simps [simp]:
  "plotted [] = []"
  "plotted (a @ b) = plotted a @ plotted b"
  "plotted (Print s # tr) = plotted tr"
  "plotted (Print_frame fr # tr) = plotted tr"
  by (simp_all add: plotted_def)

lemma special_dump_projections [simp]:
  "regress_args (special_dump df) = []"
  "saved (special_dump df) = []"
  "plotted (special_dump df) = []"
  by (simp_all add: special_dump_def Let_def)

subsection \<open>The stages, case by case\<close>

lemma fit_and_report_full_error:
  "linregress pts = Inl e \<Longrightarrow> fit_and_report pts = ([Call_linregress pts], Some e)"
  by (simp add: fit_and_report_def)

lemma fit_and_report_no_small:
  "linregress pts = Inr full \<Longrightarrow> filter (\<lambda>(x, y). x \<le> 200) pts = [] \<Longrightarrow>
   fit_and_report pts =
     (Call_linregress pts # full_panel full pts
      @ [Subplot 2, Tight_layout, Savefig (ustr ''gas_analysis.png'')] @ full_report full, None)"
  by (simp add: fit_and_report_def Let_def)

lemma fit_and_report_small_error:
  "linregress pts = Inr full \<Longrightarrow> filter (\<lambda>(x, y). x \<le> 200) pts \<noteq> [] \<Longrightarrow>
   linregress (filter (\<lambda>(x, y). x \<le> 200) pts) = Inl e \<Longrightarrow>
   fit_and_report pts =
     (Call_linregress pts # full_panel full pts
      @ [Subplot 2, Call_linregress (filter (\<lambda>(x, y). x \<le> 200) pts)], Some e)"
  by (simp add: fit_and_report_def Let_def)

lemma fit_and_report_small_ok:
  "linregress pts = Inr full \<Longrightarrow> filter (\<lambda>(x, y). x \<le> 200) pts \<noteq> [] \<Longrightarrow>
   linregress (filter (\<lambda>(x, y). x \<le> 200) pts) = Inr small \<Longrightarrow>
   fit_and_report pts =
     (Call_linregress pts # full_panel full pts
      @ [Subplot 2, Call_linregress (filter (\<lambda>(x, y). x \<le> 200) pts)]
      @ small_panel small (filter (\<lambda>(x, y). x \<le> 200) pts)
      @ [Tight_layout, Savefig (ustr ''gas_analysis.png'')]
      @ full_report full @ small_report small, None)"
  by (simp add: fit_and_report_def Let_def)

lemma fit_and_report_single:
  "x \<le> 200 \<Longrightarrow> fit_and_report [(x, y)] =
     (Call_linregress [(x, y)] # full_panel nan_result [(x, y)]
      @ [Subplot 2, Call_linregress [(x, y)]]
      @ small_panel nan_result [(x, y)]
      @ [Tight_layout, Savefig (ustr ''gas_analysis.png'')]
      @ full_report nan_result @ small_report nan_result, None)"
  using fit_and_report_small_ok [of "[(x, y)]", OF linregress_single]
  by (simp add: linregress_single)

lemma nan_report:
  "printed (full_report nan_result) =
     [ustr ''Gas Regression Analysis:'',
      ustr ''Base gas cost: nan gas units'',
      ustr ''Marginal cost per byte: nan gas units'',
      ustr ''R-squared: nan'']"
  by (simp add: full_report_def report_lines_def r_squared_def nan_result_def fmt_def ustr_def)

lemma numeric_stage_converted:
  "to_numeric conv (map (message_length \<circ> snd) nrows) = Inr xs \<Longrightarrow>
   to_numeric (gas_value conv) (map (gas_used \<circ> snd) nrows) = Inr ys \<Longrightarrow>
   numeric_stage conv nrows = fit_and_report (sort_key fst (zip xs ys))"
  by (simp add: numeric_stage_def)

lemma analyze_no_numeric:
  "numeric_rows df = [] \<Longrightarrow> analyze conv df = (special_dump df, None)"
  by (simp add: analyze_def)

lemma analyze_numeric:
  "numeric_rows df \<noteq> [] \<Longrightarrow>
   analyze conv df =
     (case snd (numeric_stage conv (numeric_rows df)) of
        Some e \<Rightarrow> numeric_stage conv (numeric_rows df)
      | None \<Rightarrow> (fst (numeric_stage conv (numeric_rows df)) @ special_dump df, None))"
  by (simp add: analyze_def Let_def case_prod_unfold split: option.splits) (metis prod.collapse)

lemma dumped_fit_and_report: "dumped (fst (fit_and_report pts)) = []"
  by (simp add: fit_and_report_def Let_def split: sum.splits)

lemma dumped_numeric_stage: "dumped (fst (numeric_stage conv nrows)) = []"
  by (simp add: numeric_stage_def dumped_fit_and_report split: sum.splits)

lemma script_text:
  "\<not> numeric_column conv (map message_length rows) \<Longrightarrow>
   script conv rows = analyze conv (read_rows rows)"
  by (simp add: script_def)

lemma script_numbers:
  "numeric_column conv (map message_length rows) \<Longrightarrow>
   script conv rows = ([], Some AttributeError)"
  by (simp add: script_def)

subsection \<open>The example frames\<close>

lemma example_numeric:
  "numeric_rows (read_rows example_rows) =
     [(0, \<lparr>message_length = ustr ''10'', gas_used = ustr ''1200''\<rparr>),
      (1, \<lparr>message_length = ustr ''50'', gas_used = ustr ''3700''\<rparr>),
      (2, \<lparr>message_length = ustr ''100'', gas_used = ustr ''6200''\<rparr>)]"
  by (simp add: example_rows_def classify ustr_def)

lemma example_special:
  "format_rows (read_rows example_rows) =
     [(3, \<lparr>message_length = ustr ''abc-test'', gas_used = ustr ''1500''\<rparr>)]"
  by (simp add: example_rows_def classify ustr_def)

lemma example_stage:
  "numeric_stage decimal_cell (numeric_rows (read_rows example_rows)) =
     fit_and_report [(10, Number 1200), (50, Number 3700), (100, Number 6200)]"
  unfolding example_numeric by (simp add: convert)

lemma example_text: "\<not> numeric_column decimal_cell (map message_length example_rows)"
  by (simp add: numeric_column_def example_rows_def convert)

lemma example_run:
  "printed (fst (analyze decimal_cell (read_rows example_rows))) =
     [ustr ''Gas Regression Analysis:'',
      ustr ''Base gas cost: 749.18 gas units'',
      ustr ''Marginal cost per byte: 55.33 gas units'',
      ustr ''R-squared: 0.9959'',
      [10] @ ustr ''Small Message Analysis ('' @ [8804] @ ustr '' 200 bytes):'',
      ustr ''Base gas cost: 749.18 gas units'',
      ustr ''Marginal cost per byte: 55.33 gas units'',
      ustr ''R-squared: 0.9959'',
      [10] @ ustr ''Special Format Analysis:'']
   \<and> dumped (fst (analyze decimal_cell (read_rows example_rows))) =
     [[(3, \<lparr>message_length = ustr ''abc-test'', gas_used = ustr ''1500''\<rparr>)]]
   \<and> snd (analyze decimal_cell (read_rows example_rows)) = None"
proof -
  let ?pts = "[(10, Number 1200), (50, Number 3700), (100, Number 6200)]
      :: (real \<times> reading) list"
  let ?f = "\<lparr>slope = Finite (3375 / 61), intercept = Finite (45700 / 61),
          rvalue = Finite (75000 / sqrt (152500000000 / 27))\<rparr>"
  have small: "filter (\<lambda>(x, y). x \<le> 200) ?pts = ?pts" by simp
  have fr: "fit_and_report ?pts =
     (Call_linregress ?pts # full_panel ?f ?pts
      @ [Subplot 2, Call_linregress ?pts]
      @ small_panel ?f ?pts
      @ [Tight_layout, Savefig (ustr ''gas_analysis.png'')]
      @ full_report ?f @ small_report ?f, None)"
    using fit_and_report_small_ok [of ?pts ?f ?f] linregress_example
    unfolding small by simp
  have ne: "numeric_rows (read_rows example_rows) \<noteq> []"
    unfolding example_numeric by simp
  have an: "analyze decimal_cell (read_rows example_rows) =
     (fst (fit_and_report ?pts) @ special_dump (read_rows example_rows), None)"
    unfolding analyze_numeric [OF ne] example_stage fr by simp
  have rep: "printed (full_report ?f) = [ustr ''Gas Regression Analysis:'',
      ustr ''Base gas cost: 749.18 gas units'',
      ustr ''Marginal cost per byte: 55.33 gas units'',
      ustr ''R-squared: 0.9959'']"
    unfolding full_report_def report_lines_def r_squared_example
    by (simp add: fmt_example) (simp add: ustr_def)
  have srep: "printed (small_report ?f) = [
      [10] @ ustr ''Small Message Analysis ('' @ [8804] @ ustr '' 200 bytes):'',
      ustr ''Base gas cost: 749.18 gas units'',
      ustr ''Marginal cost per byte: 55.33 gas units'',
      ustr ''R-squared: 0.9959'']"
    unfolding small_report_def report_lines_def r_squared_example
    by (simp add: fmt_example) (simp add: ustr_def)
  have sd: "special_dump (read_rows example_rows) =
     [Print ([10] @ ustr ''Special Format Analysis:''),
      Print_frame [(3, \<lparr>message_length = ustr ''abc-test'', gas_used = ustr ''1500''\<rparr>)]]"
    unfolding special_dump_def example_special by simp
  show ?thesis
    unfolding an fr sd by (simp add: rep srep)
qed

text \<open>
  A frame with one numeric row of length at most 200, first in the file, and special
  rows after it: the row is fitted twice, the image is written and the report has NaN.
\<close>

lemma single_row_run:
  "numeric_rows (read_rows rows) = [(0, \<lparr>message_length = l, gas_used = g\<rparr>)] \<Longrightarrow>
   conv l = Some x \<Longrightarrow> gas_value conv g = Some y \<Longrightarrow> x \<le> 200 \<Longrightarrow>
   analyze conv (read_rows rows) =
     (fst (fit_and_report [(x, y)]) @ special_dump (read_rows rows), None)
   \<and> regress_args (fst (analyze conv (read_rows rows))) = [[(x, y)], [(x, y)]]
   \<and> saved (fst (analyze conv (read_rows rows))) = [ustr ''gas_analysis.png'']
   \<and> take 4 (printed (fst (analyze conv (read_rows rows)))) =
       [ustr ''Gas Regression Analysis:'',
        ustr ''Base gas cost: nan gas units'',
        ustr ''Marginal cost per byte: nan gas units'',
        ustr ''R-squared: nan'']"
proof -
  assume n: "numeric_rows (read_rows rows) = [(0, \<lparr>message_length = l, gas_used = g\<rparr>)]"
    and cl: "conv l = Some x" and cg: "gas_value conv g = Some y" and le: "x \<le> 200"
  have ne: "numeric_rows (read_rows rows) \<noteq> []" unfolding n by simp
  have st: "numeric_stage conv (numeric_rows (read_rows rows)) = fit_and_report [(x, y)]"
    unfolding n by (simp add: numeric_stage_def cl cg)
  have fr: "snd (fit_and_report [(x, y)]) = None"
    using fit_and_report_single [OF le, of y] by simp
  have an: "analyze conv (read_rows rows) =
     (fst (fit_and_report [(x, y)]) @ special_dump (read_rows rows), None)"
    unfolding analyze_numeric [OF ne] st using fr by simp
  show ?thesis
    unfolding an by (simp add: fit_and_report_single [OF le] nan_report)
qed

lemma one_numeric:
  "numeric_rows (read_rows one_numeric_rows) =
     [(0, \<lparr>message_length = ustr ''5'', gas_used = ustr ''100''\<rparr>)]"
  by (simp add: one_numeric_rows_def classify ustr_def)

lemma one_text: "\<not> numeric_column decimal_cell (map message_length one_numeric_rows)"
  by (simp add: numeric_column_def one_numeric_rows_def convert)



lemma signed_numeric: "numeric_rows (read_rows signed_rows) = []"
  by (simp add: signed_rows_def classify ustr_def)

lemma signed_special: "format_rows (read_rows signed_rows) = read_rows signed_rows"
  by (simp add: signed_rows_def classify ustr_def)

lemma signed_numbers: "numeric_column decimal_cell (map message_length signed_rows)"
  by (simp add: numeric_column_def signed_rows_def convert)

lemma superscript_numeric:
  "numeric_rows (read_rows superscript_rows) =
     [(0, \<lparr>message_length = [178], gas_used = ustr ''21000''\<rparr>)]"
  by (simp add: superscript_rows_def classify ustr_def)

lemma superscript_text:
  "\<not> numeric_column decimal_cell (map message_length superscript_rows)"
  by (simp add: numeric_column_def superscript_rows_def convert)

lemma boundary_numeric:
  "numeric_rows (read_rows boundary_rows) =
     [(0, \<lparr>message_length = ustr ''201'', gas_used = ustr ''10750''\<rparr>),
      (2, \<lparr>message_length = ustr ''200'', gas_used = ustr ''10700''\<rparr>)]"
  by (simp add: boundary_rows_def classify ustr_def)

lemma identical_numeric:
  "numeric_rows (read_rows identical_rows) =
     [(0, \<lparr>message_length = ustr ''5'', gas_used = ustr ''100''\<rparr>),
      (2, \<lparr>message_length = ustr ''5'', gas_used = ustr ''200''\<rparr>)]"
  by (simp add: identical_rows_def classify ustr_def)

lemma identical_special:
  "format_rows (read_rows identical_rows) =
     [(1, \<lparr>message_length = ustr ''abc-test'', gas_used = ustr ''1500''\<rparr>)]"
  by (simp add: identical_rows_def classify ustr_def)

lemma identical_text: "\<not> numeric_column decimal_cell (map message_length identical_rows)"
  by (simp add: numeric_column_def identical_rows_def convert)



lemma special_only_numeric: "numeric_rows (read_rows special_only_rows) = []"
  by (simp add: special_only_rows_def classify ustr_def)

lemma special_only_special:
  "format_rows (read_rows special_only_rows) =
     [(0, \<lparr>message_length = ustr ''-5'', gas_used = ustr ''300''\<rparr>),
      (1, \<lparr>message_length = ustr ''1.5'', gas_used = ustr ''400''\<rparr>),
      (2, \<lparr>message_length = ustr ''abc-test'', gas_used = ustr ''1500''\<rparr>)]"
  by (simp add: special_only_rows_def classify ustr_def)

lemma missing_gas_numeric:
  "numeric_rows (read_rows missing_gas_rows) =
     [(0, \<lparr>message_length = ustr ''10'', gas_used = ustr ''1200''\<rparr>),
      (1, \<lparr>message_length = ustr ''50'', gas_used = []\<rparr>)]"
  by (simp add: missing_gas_rows_def classify ustr_def)

lemma missing_gas_text:
  "\<not> numeric_column decimal_cell (map message_length missing_gas_rows)"
  by (simp add: numeric_column_def missing_gas_rows_def convert)

lemma missing_gas_stage:
  "numeric_stage decimal_cell (numeric_rows (read_rows missing_gas_rows)) =
     fit_and_report [(10, Number 1200), (50, Nan)]"
  unfolding missing_gas_numeric by (simp add: convert)

lemma missing_gas_fit:
  "fit_and_report [(10, Number 1200), (50, Nan)] =
     (Call_linregress [(10, Number 1200), (50, Nan)]
      # full_panel nan_result [(10, Number 1200), (50, Nan)]
      @ [Subplot 2, Call_linregress [(10, Number 1200), (50, Nan)]]
      @ small_panel nan_result [(10, Number 1200), (50, Nan)]
      @ [Tight_layout, Savefig (ustr ''gas_analysis.png'')]
      @ full_report nan_result @ small_report nan_result, None)"
proof -
  let ?pts = "[(10, Number 1200), (50, Nan)] :: (real \<times> reading) list"
  have l: "linregress ?pts = Inr nan_result" by (rule linregress_missing) simp
  have small: "filter (\<lambda>(x, y). x \<le> 200) ?pts = ?pts" by simp
  show ?thesis
    using fit_and_report_small_ok [of ?pts nan_result nan_result] l
    unfolding small by simp
qed

section \<open>The partition of the rows\<close>

text \<open>
  C1. The partition by the numeric-length predicate is total and disjoint: the numeric
  rows and the special-format rows together are the rows of the frame, each occurrence
  once; no row is in both; their index labels together are the labels of the frame, and
  when the labels of the frame are distinct (as \<^verbatim>\<open>read_csv\<close> makes them) no label occurs on
  both sides.
\<close>

theorem partition_total_disjoint:
  "mset (numeric_rows df) + mset (format_rows df) = mset df
   \<and> set (numeric_rows df) \<inter> set (format_rows df) = {}
   \<and> set (map fst (numeric_rows df)) \<union> set (map fst (format_rows df)) = set (map fst df)
   \<and> (distinct (map fst df) \<longrightarrow>
        set (map fst (numeric_rows df)) \<inter> set (map fst (format_rows df)) = {})"
proof -
  let ?P = "\<lambda>(i, r). isnumeric (message_length r)"
  have nr: "numeric_rows df = filter ?P df"
    by (simp add: numeric_rows_def)
  have fr: "format_rows df = filter (\<lambda>p. \<not> ?P p) df"
    by (simp add: format_rows_def case_prod_unfold)
  have total: "mset (numeric_rows df) + mset (format_rows df) = mset df"
    unfolding nr fr by simp
  have disj: "set (numeric_rows df) \<inter> set (format_rows df) = {}"
    unfolding nr fr by auto
  have labels: "set (map fst (numeric_rows df)) \<union> set (map fst (format_rows df))
      = set (map fst df)"
    unfolding nr fr by force
  have label_disj: "set (map fst (numeric_rows df)) \<inter> set (map fst (format_rows df)) = {}"
    if dist: "distinct (map fst df)"
  proof (rule ccontr)
    assume "set (map fst (numeric_rows df)) \<inter> set (map fst (format_rows df)) \<noteq> {}"
    then obtain i r1 r2
      where in1: "(i, r1) \<in> set df" "?P (i, r1)"
        and in2: "(i, r2) \<in> set df" "\<not> ?P (i, r2)"
      unfolding nr fr by auto
    from dist in1(1) in2(1) have "r1 = r2" by (rule eq_key_imp_eq_value)
    with in1 in2 show False by simp
  qed
  from total disj labels label_disj show ?thesis by blast
qed

theorem partition_total_disjoint_witness:
  "distinct (map fst (read_rows
       [\<lparr>message_length = ustr ''10'', gas_used = ustr ''1200''\<rparr>,
        \<lparr>message_length = ustr ''abc-test'', gas_used = ustr ''1500''\<rparr>]))
   \<and> set (map fst (numeric_rows (read_rows
       [\<lparr>message_length = ustr ''10'', gas_used = ustr ''1200''\<rparr>,
        \<lparr>message_length = ustr ''abc-test'', gas_used = ustr ''1500''\<rparr>])))
     \<inter> set (map fst (format_rows (read_rows
       [\<lparr>message_length = ustr ''10'', gas_used = ustr ''1200''\<rparr>,
        \<lparr>message_length = ustr ''abc-test'', gas_used = ustr ''1500''\<rparr>]))) = {}"
proof -
  let ?df = "read_rows
       [\<lparr>message_length = ustr ''10'', gas_used = ustr ''1200''\<rparr>,
        \<lparr>message_length = ustr ''abc-test'', gas_used = ustr ''1500''\<rparr>]"
  have d: "distinct (map fst ?df)" by (simp add: read_rows_def)
  from partition_total_disjoint [of ?df] d show ?thesis by blast
qed

section \<open>The numeric-length predicate\<close>

text \<open>
  C3. The predicate of the code is \<^verbatim>\<open>str.isnumeric\<close>, which is wider than the decimal
  digits: a length cell holding the single character U+00B2 (superscript two) is no
  ASCII digit string, yet its row is classified numeric; line 14 then cannot convert it,
  and the run ends there with nothing output.
\<close>

theorem superscript_two_classified_numeric:
  "numeric_rows (read_rows superscript_rows)
     = [(0, \<lparr>message_length = [178], gas_used = ustr ''21000''\<rparr>)]
   \<and> \<not> list_all ascii_digit [178]
   \<and> script decimal_cell superscript_rows = ([], Some ValueError_parse)"
proof -
  have ne: "numeric_rows (read_rows superscript_rows) \<noteq> []"
    unfolding superscript_numeric by simp
  have st: "numeric_stage decimal_cell (numeric_rows (read_rows superscript_rows))
      = ([], Some ValueError_parse)"
    unfolding superscript_numeric by (simp add: convert)
  have "script decimal_cell superscript_rows = ([], Some ValueError_parse)"
    unfolding script_text [OF superscript_text] analyze_numeric [OF ne] st by simp
  then show ?thesis
    using superscript_numeric by (simp add: ascii_digit_def)
qed

section \<open>The branches of the run\<close>

text \<open>
  C2, as stated, fails twice. With one numeric row the test of line 12 (non-emptiness)
  lets the row through: it is fitted (twice, as its length is at most 200), the image is
  written and the report is printed, with \<^verbatim>\<open>nan\<close> for the coefficients. And with no
  numeric row but a length column of numbers only, line 10 raises and the special-format
  rows are never dumped.
\<close>

theorem skip_on_insufficient_fails:
  "length (numeric_rows (read_rows one_numeric_rows)) = 1
   \<and> regress_args (fst (script decimal_cell one_numeric_rows))
       = [[(5, Number 100)], [(5, Number 100)]]
   \<and> saved (fst (script decimal_cell one_numeric_rows)) = [ustr ''gas_analysis.png'']
   \<and> take 4 (printed (fst (script decimal_cell one_numeric_rows)))
       = [ustr ''Gas Regression Analysis:'',
          ustr ''Base gas cost: nan gas units'',
          ustr ''Marginal cost per byte: nan gas units'',
          ustr ''R-squared: nan'']
   \<and> numeric_rows (read_rows signed_rows) = []
   \<and> format_rows (read_rows signed_rows) \<noteq> []
   \<and> script decimal_cell signed_rows = ([], Some AttributeError)"
proof -
  have c5: "decimal_cell (ustr ''5'') = Some 5" by (simp add: convert)
  have g100: "gas_value decimal_cell (ustr ''100'') = Some (Number 100)"
    by (simp add: convert)
  have le: "(5 :: real) \<le> 200" by simp
  note run = single_row_run [OF one_numeric c5 g100 le]
  have a: "length (numeric_rows (read_rows one_numeric_rows)) = 1"
    unfolding one_numeric by simp
  have b: "format_rows (read_rows signed_rows) \<noteq> []"
    unfolding signed_special by (simp add: signed_rows_def read_rows_def)
  from a run b signed_numeric script_numbers [OF signed_numbers] show ?thesis
    unfolding script_text [OF one_text] by blast
qed

text \<open>
  C2, amended. With no numeric row, and a length column that is text, the run makes no
  regression call, plots nothing and prints no report; its only output is the
  special-format dump, made when there are special-format rows.
\<close>

theorem no_numeric_rows_skip_fit:
  "numeric_rows (read_rows rows) = [] \<Longrightarrow>
   \<not> numeric_column conv (map message_length rows) \<Longrightarrow>
   script conv rows =
     (if format_rows (read_rows rows) = [] then []
      else [Print ([10] @ ustr ''Special Format Analysis:''),
            Print_frame (format_rows (read_rows rows))],
      None)"
  by (simp add: script_text analyze_no_numeric special_dump_def Let_def)

theorem no_numeric_rows_skip_fit_witness:
  "numeric_rows (read_rows special_only_rows) = []
   \<and> \<not> numeric_column decimal_cell (map message_length special_only_rows)
   \<and> script decimal_cell special_only_rows
      = ([Print ([10] @ ustr ''Special Format Analysis:''),
          Print_frame
            [(0, \<lparr>message_length = ustr ''-5'', gas_used = ustr ''300''\<rparr>),
             (1, \<lparr>message_length = ustr ''1.5'', gas_used = ustr ''400''\<rparr>),
             (2, \<lparr>message_length = ustr ''abc-test'', gas_used = ustr ''1500''\<rparr>)]],
         None)"
proof -
  have t: "\<not> numeric_column decimal_cell (map message_length special_only_rows)"
    by (simp add: numeric_column_def special_only_rows_def convert)
  from no_numeric_rows_skip_fit [OF special_only_numeric t] special_only_numeric t
  show ?thesis by (simp add: special_only_special)
qed

text \<open>
  C9. With no numeric row no image file is written and nothing is plotted: the calls of
  the run are those of the special-format dump.
\<close>

theorem no_numeric_rows_no_image:
  "numeric_rows df = [] \<Longrightarrow>
   saved (fst (analyze conv df)) = [] \<and> plotted (fst (analyze conv df)) = []
   \<and> fst (analyze conv df) = special_dump df"
  by (simp add: analyze_no_numeric)

theorem no_numeric_rows_no_image_witness:
  "numeric_rows (read_rows special_only_rows) = []
   \<and> saved (fst (analyze decimal_cell (read_rows special_only_rows))) = []
   \<and> dumped (fst (analyze decimal_cell (read_rows special_only_rows)))
       = [[(0, \<lparr>message_length = ustr ''-5'', gas_used = ustr ''300''\<rparr>),
           (1, \<lparr>message_length = ustr ''1.5'', gas_used = ustr ''400''\<rparr>),
           (2, \<lparr>message_length = ustr ''abc-test'', gas_used = ustr ''1500''\<rparr>)]]"
proof -
  note n = special_only_numeric
  from no_numeric_rows_no_image [OF n, of decimal_cell] n show ?thesis
    by (simp add: special_dump_def special_only_special)
qed

text \<open>
  C6. Once both columns are converted and the full fit has returned, the small-message
  fit is called on exactly the numeric rows of length at most 200, the bound included;
  when there is no such row the stage makes the full fit, the first panel, the image and
  the full report only, and raises nothing.
\<close>

theorem small_fit_rows_up_to_200:
  "to_numeric conv (map (message_length \<circ> snd) nrows) = Inr xs \<Longrightarrow>
   to_numeric (gas_value conv) (map (gas_used \<circ> snd) nrows) = Inr ys \<Longrightarrow>
   linregress (sort_key fst (zip xs ys)) = Inr full \<Longrightarrow>
   (let pts = sort_key fst (zip xs ys);
        small_df = filter (\<lambda>(x, y). x \<le> 200) pts
    in mset small_df = filter_mset (\<lambda>(x, y). x \<le> 200) (mset (zip xs ys))
       \<and> (small_df \<noteq> [] \<longrightarrow>
            regress_args (fst (numeric_stage conv nrows)) = [pts, small_df])
       \<and> (small_df = [] \<longrightarrow>
            numeric_stage conv nrows =
              (Call_linregress pts # full_panel full pts
               @ [Subplot 2, Tight_layout, Savefig (ustr ''gas_analysis.png'')]
               @ full_report full, None)))"
proof -
  assume cx: "to_numeric conv (map (message_length \<circ> snd) nrows) = Inr xs"
    and cy: "to_numeric (gas_value conv) (map (gas_used \<circ> snd) nrows) = Inr ys"
    and fit: "linregress (sort_key fst (zip xs ys)) = Inr full"
  let ?pts = "sort_key fst (zip xs ys)"
  let ?small = "filter (\<lambda>(x, y). x \<le> 200) ?pts"
  have st: "numeric_stage conv nrows = fit_and_report ?pts"
    using cx cy by (rule numeric_stage_converted)
  have a: "mset ?small = filter_mset (\<lambda>(x, y). x \<le> 200) (mset (zip xs ys))"
    by simp
  have b: "regress_args (fst (numeric_stage conv nrows)) = [?pts, ?small]"
    if ne: "?small \<noteq> []"
  proof (cases "linregress ?small")
    case (Inl e)
    show ?thesis unfolding st fit_and_report_small_error [OF fit ne Inl] by simp
  next
    case (Inr small)
    show ?thesis unfolding st fit_and_report_small_ok [OF fit ne Inr] by simp
  qed
  have c: "numeric_stage conv nrows =
              (Call_linregress ?pts # full_panel full ?pts
               @ [Subplot 2, Tight_layout, Savefig (ustr ''gas_analysis.png'')]
               @ full_report full, None)"
    if "?small = []"
    unfolding st using fit that by (rule fit_and_report_no_small)
  from a b c show ?thesis unfolding Let_def by blast
qed

theorem small_fit_rows_up_to_200_witness:
  "to_numeric decimal_cell
      (map (message_length \<circ> snd) (numeric_rows (read_rows boundary_rows))) = Inr [201, 200]
   \<and> to_numeric (gas_value decimal_cell)
      (map (gas_used \<circ> snd) (numeric_rows (read_rows boundary_rows)))
       = Inr [Number 10750, Number 10700]
   \<and> linregress (sort_key fst (zip [201, 200] [Number 10750, Number 10700]))
       = Inr \<lparr>slope = Finite 50, intercept = Finite 700, rvalue = Finite 1\<rparr>
   \<and> regress_args (fst (numeric_stage decimal_cell (numeric_rows (read_rows boundary_rows))))
       = [[(200, Number 10700), (201, Number 10750)], [(200, Number 10700)]]"
proof -
  have cx: "to_numeric decimal_cell
      (map (message_length \<circ> snd) (numeric_rows (read_rows boundary_rows))) = Inr [201, 200]"
    unfolding boundary_numeric by (simp add: convert)
  have cy: "to_numeric (gas_value decimal_cell)
      (map (gas_used \<circ> snd) (numeric_rows (read_rows boundary_rows)))
       = Inr [Number 10750, Number 10700]"
    unfolding boundary_numeric by (simp add: convert)
  have srt: "sort_key fst (zip [201, 200] [Number 10750, Number 10700])
      = [(200 :: real, Number 10700), (201, Number 10750)]"
    by simp
  have fit: "linregress (sort_key fst (zip [201, 200] [Number 10750, Number 10700]))
       = Inr \<lparr>slope = Finite 50, intercept = Finite 700, rvalue = Finite 1\<rparr>"
    unfolding srt by (rule linregress_boundary)
  from small_fit_rows_up_to_200 [OF cx cy fit] cx cy fit show ?thesis
    unfolding Let_def srt by simp
qed

text \<open>
  C8, as stated, fails: two numeric rows of the same length make the full fit raise, and
  the run ends before line 82; the special-format row is there and is not dumped.
\<close>

theorem aborted_run_dumps_nothing:
  "format_rows (read_rows identical_rows)
     = [(1, \<lparr>message_length = ustr ''abc-test'', gas_used = ustr ''1500''\<rparr>)]
   \<and> script decimal_cell identical_rows
     = ([Call_linregress [(5, Number 100), (5, Number 200)]], Some ValueError_identical_x)
   \<and> dumped (fst (script decimal_cell identical_rows)) = []"
proof -
  have ne: "numeric_rows (read_rows identical_rows) \<noteq> []"
    unfolding identical_numeric by simp
  have st: "numeric_stage decimal_cell (numeric_rows (read_rows identical_rows))
      = fit_and_report [(5, Number 100), (5, Number 200)]"
    unfolding identical_numeric by (simp add: convert)
  have l: "linregress [(5, Number 100), (5, Number 200)] = Inl ValueError_identical_x"
    by (rule linregress_identical [of _ 5]) simp_all
  have "script decimal_cell identical_rows
     = ([Call_linregress [(5, Number 100), (5, Number 200)]], Some ValueError_identical_x)"
    unfolding script_text [OF identical_text] analyze_numeric [OF ne] st
      fit_and_report_full_error [OF l] by simp
  then show ?thesis using identical_special by simp
qed

text \<open>
  C8, amended. The frame of the special-format rows is printed exactly when no exception
  ends the run and there are special-format rows; it holds all of them, whole rows in
  their input order.
\<close>

theorem special_dump_printed_iff:
  "dumped (fst (script conv rows)) =
     (if snd (script conv rows) = None \<and> format_rows (read_rows rows) \<noteq> []
      then [format_rows (read_rows rows)] else [])
   \<and> subseq (format_rows (read_rows rows)) (read_rows rows)
   \<and> set (format_rows (read_rows rows))
       = {(i, r). (i, r) \<in> set (read_rows rows) \<and> \<not> isnumeric (message_length r)}"
proof -
  let ?df = "read_rows rows"
  have sd: "dumped (special_dump ?df) = (if format_rows ?df \<noteq> [] then [format_rows ?df] else [])"
    by (simp add: special_dump_def Let_def)
  have an: "dumped (fst (analyze conv ?df)) =
     (if snd (analyze conv ?df) = None \<and> format_rows ?df \<noteq> []
      then [format_rows ?df] else [])"
  proof (cases "numeric_rows ?df = []")
    case True
    then show ?thesis by (simp add: analyze_no_numeric sd)
  next
    case False
    then show ?thesis
      by (simp add: analyze_numeric dumped_numeric_stage sd split: option.splits)
  qed
  have a: "dumped (fst (script conv rows)) =
     (if snd (script conv rows) = None \<and> format_rows ?df \<noteq> []
      then [format_rows ?df] else [])"
  proof (cases "numeric_column conv (map message_length rows)")
    case True
    then show ?thesis by (simp add: script_numbers)
  next
    case False
    then show ?thesis by (simp add: script_text an)
  qed
  have c: "subseq (format_rows ?df) ?df"
    by (simp add: format_rows_def)
  have d: "set (format_rows ?df)
      = {(i, r). (i, r) \<in> set ?df \<and> \<not> isnumeric (message_length r)}"
    by (auto simp: format_rows_def)
  from a c d show ?thesis by blast
qed

theorem special_dump_printed_iff_witness:
  "snd (script decimal_cell example_rows) = None
   \<and> dumped (fst (script decimal_cell example_rows))
       = [[(3, \<lparr>message_length = ustr ''abc-test'', gas_used = ustr ''1500''\<rparr>)]]"
proof -
  have n: "snd (script decimal_cell example_rows) = None"
    unfolding script_text [OF example_text] using example_run by simp
  from special_dump_printed_iff [of decimal_cell example_rows] n example_special
  show ?thesis by simp
qed

section \<open>The regression\<close>

text \<open>
  C4, as stated, fails: the three numeric points of the example are not collinear
  (\<open>700 + 50 * 100\<close> is not 6200), and their least-squares line has neither slope 50 nor
  intercept 700, nor is \<open>r_squared\<close> equal to 1.
\<close>

theorem example_fit_is_not_50_700:
  "slope (projr (linregress [(10, Number 1200), (50, Number 3700), (100, Number 6200)]))
     \<noteq> Finite 50
   \<and> intercept (projr (linregress [(10, Number 1200), (50, Number 3700), (100, Number 6200)]))
     \<noteq> Finite 700
   \<and> r_squared (projr (linregress [(10, Number 1200), (50, Number 3700), (100, Number 6200)]))
     \<noteq> Finite 1
   \<and> (6200 :: real) \<noteq> 700 + 50 * 100"
  unfolding linregress_example by (simp add: r_squared_example)

text \<open>
  C4, amended. The example has three numeric rows and the special-format row
  \<^verbatim>\<open>abc-test\<close>; the full fit has slope 3375/61 and intercept 45700/61 with \<open>r_squared\<close>
  243/244; the report prints 749.18, 55.33 and 0.9959, for the full fit and again for the
  small-message fit (all three lengths are at most 200), and the dump lists the
  \<^verbatim>\<open>abc-test\<close> row.
\<close>

theorem end_to_end_example:
  "length (numeric_rows (read_rows example_rows)) = 3
   \<and> format_rows (read_rows example_rows)
       = [(3, \<lparr>message_length = ustr ''abc-test'', gas_used = ustr ''1500''\<rparr>)]
   \<and> numeric_stage decimal_cell (numeric_rows (read_rows example_rows))
       = fit_and_report [(10, Number 1200), (50, Number 3700), (100, Number 6200)]
   \<and> slope (projr (linregress [(10, Number 1200), (50, Number 3700), (100, Number 6200)]))
       = Finite (3375 / 61)
   \<and> intercept (projr (linregress [(10, Number 1200), (50, Number 3700), (100, Number 6200)]))
       = Finite (45700 / 61)
   \<and> r_squared (projr (linregress [(10, Number 1200), (50, Number 3700), (100, Number 6200)]))
       = Finite (243 / 244)
   \<and> script decimal_cell example_rows = analyze decimal_cell (read_rows example_rows)
   \<and> printed (fst (analyze decimal_cell (read_rows example_rows))) =
     [ustr ''Gas Regression Analysis:'',
      ustr ''Base gas cost: 749.18 gas units'',
      ustr ''Marginal cost per byte: 55.33 gas units'',
      ustr ''R-squared: 0.9959'',
      [10] @ ustr ''Small Message Analysis ('' @ [8804] @ ustr '' 200 bytes):'',
      ustr ''Base gas cost: 749.18 gas units'',
      ustr ''Marginal cost per byte: 55.33 gas units'',
      ustr ''R-squared: 0.9959'',
      [10] @ ustr ''Special Format Analysis:'']
   \<and> dumped (fst (analyze decimal_cell (read_rows example_rows))) =
     [[(3, \<lparr>message_length = ustr ''abc-test'', gas_used = ustr ''1500''\<rparr>)]]
   \<and> snd (analyze decimal_cell (read_rows example_rows)) = None"
proof -
  have n: "length (numeric_rows (read_rows example_rows)) = 3"
    unfolding example_numeric by simp
  have f: "slope (projr (linregress [(10, Number 1200), (50, Number 3700), (100, Number 6200)]))
       = Finite (3375 / 61)
   \<and> intercept (projr (linregress [(10, Number 1200), (50, Number 3700), (100, Number 6200)]))
       = Finite (45700 / 61)
   \<and> r_squared (projr (linregress [(10, Number 1200), (50, Number 3700), (100, Number 6200)]))
       = Finite (243 / 244)"
    unfolding linregress_example by (simp add: r_squared_example)
  from n example_special example_stage f script_text [OF example_text] example_run
  show ?thesis by blast
qed

text \<open>
  C5. The fit is order-invariant: two sequences of points that are permutations of each
  other get the same result from \<open>linregress\<close>, be it a regression or an error.
\<close>

theorem linregress_order_invariant:
  "mset ps = mset qs \<Longrightarrow> linregress ps = linregress qs"
proof -
  assume h: "mset ps = mset qs"
  have l: "length ps = length qs" using h by (rule mset_eq_length)
  have s: "set (map snd ps) = set (map snd qs)"
    using h by (metis mset_eq_setD set_map)
  have "mset (map (\<lambda>(x, y). (x, number y)) ps) = mset (map (\<lambda>(x, y). (x, number y)) qs)"
    using h by simp
  then have b: "linregress_body (map (\<lambda>(x, y). (x, number y)) ps)
      = linregress_body (map (\<lambda>(x, y). (x, number y)) qs)"
    by (rule linregress_body_mset)
  show ?thesis unfolding linregress_def l s b ..
qed

theorem linregress_order_invariant_witness:
  "mset [(100, Number 6200), (10, Number 1200), (50, Number 3700)]
     = mset [(10, Number 1200), (50, Number 3700), (100, Number 6200)]
   \<and> linregress [(100, Number 6200), (10, Number 1200), (50, Number 3700)]
       = Inr \<lparr>slope = Finite (3375 / 61), intercept = Finite (45700 / 61),
              rvalue = Finite (75000 / sqrt (152500000000 / 27))\<rparr>"
proof -
  have p: "mset [(100, Number 6200), (10, Number 1200), (50, Number 3700)]
      = mset [(10 :: real, Number 1200), (50, Number 3700), (100, Number 6200)]"
    by simp
  from linregress_order_invariant [OF p] linregress_example p show ?thesis by simp
qed

text \<open>
  C7, as stated, fails: a numeric row with an empty gas field gives the regression a NaN,
  and every output of the regression is then NaN, \<open>r_squared\<close> included; the report
  prints \<^verbatim>\<open>R-squared: nan\<close>.
\<close>

theorem missing_gas_r_squared_nan:
  "regress_args (fst (script decimal_cell missing_gas_rows))
     = [[(10, Number 1200), (50, Nan)], [(10, Number 1200), (50, Nan)]]
   \<and> linregress [(10, Number 1200), (50, Nan)]
     = Inr \<lparr>slope = NaN, intercept = NaN, rvalue = NaN\<rparr>
   \<and> r_squared \<lparr>slope = NaN, intercept = NaN, rvalue = NaN\<rparr> = NaN
   \<and> take 4 (printed (fst (script decimal_cell missing_gas_rows)))
       = [ustr ''Gas Regression Analysis:'',
          ustr ''Base gas cost: nan gas units'',
          ustr ''Marginal cost per byte: nan gas units'',
          ustr ''R-squared: nan'']"
proof -
  have ne: "numeric_rows (read_rows missing_gas_rows) \<noteq> []"
    unfolding missing_gas_numeric by simp
  have an: "script decimal_cell missing_gas_rows =
     (fst (fit_and_report [(10, Number 1200), (50, Nan)])
      @ special_dump (read_rows missing_gas_rows), None)"
    unfolding script_text [OF missing_gas_text] analyze_numeric [OF ne] missing_gas_stage
    by (simp add: missing_gas_fit)
  have l: "linregress [(10, Number 1200), (50, Nan)]
     = Inr \<lparr>slope = NaN, intercept = NaN, rvalue = NaN\<rparr>"
    using linregress_missing [of "[(10, Number 1200), (50, Nan)]"]
    by (simp add: nan_result_def)
  have r: "r_squared \<lparr>slope = NaN, intercept = NaN, rvalue = NaN\<rparr> = NaN"
    by (simp add: r_squared_def)
  show ?thesis
    unfolding an using l r by (simp add: missing_gas_fit nan_report)
qed

text \<open>
  C7, amended. Whenever a regression is computed, its \<open>r_squared\<close> is NaN or lies in the
  closed interval from 0 to 1; it is a number of that interval when the regression is
  over two or more rows, none with a missing gas value, whose lengths are not all equal
  and whose gas values are not all equal.
\<close>

theorem r_squared_nan_or_unit_interval:
  "(linregress pts = Inr f \<longrightarrow>
      r_squared f = NaN \<or> (\<exists>v. r_squared f = Finite v \<and> 0 \<le> v \<and> v \<le> 1))
   \<and> (2 \<le> length pts \<and> Nan \<notin> snd ` set pts
       \<and> (\<exists>p\<in>set pts. \<exists>q\<in>set pts. fst p \<noteq> fst q)
       \<and> (\<exists>p\<in>set pts. \<exists>q\<in>set pts. snd p \<noteq> snd q) \<longrightarrow>
      (\<exists>g v. linregress pts = Inr g \<and> r_squared g = Finite v \<and> 0 \<le> v \<and> v \<le> 1))"
proof -
  have sq: "\<exists>w. fmul (Finite v) (Finite v) = Finite w \<and> 0 \<le> w \<and> w \<le> 1"
    if "- 1 \<le> v" "v \<le> 1" for v :: real
  proof -
    have "v\<^sup>2 \<le> 1" using that by (simp add: square_le_1)
    then show ?thesis by (simp add: power2_eq_square)
  qed
  have a: "r_squared f = NaN \<or> (\<exists>v. r_squared f = Finite v \<and> 0 \<le> v \<and> v \<le> 1)"
    if h: "linregress pts = Inr f"
  proof (cases "length pts \<le> 1 \<or> Nan \<in> set (map snd pts)")
    case True
    then have "f = nan_result" using h by (simp add: linregress_def)
    then show ?thesis by (simp add: r_squared_def nan_result_def)
  next
    case False
    then have "linregress_body (map (\<lambda>(x, y). (x, number y)) pts) = Inr f"
      using h by (simp add: linregress_def)
    from rvalue_body_range [OF this] sq show ?thesis
      unfolding r_squared_def by auto
  qed
  have b: "\<exists>g v. linregress pts = Inr g \<and> r_squared g = Finite v \<and> 0 \<le> v \<and> v \<le> 1"
    if len: "2 \<le> length pts" and nn: "Nan \<notin> snd ` set pts"
      and dx: "\<exists>p\<in>set pts. \<exists>q\<in>set pts. fst p \<noteq> fst q"
      and dy: "\<exists>p\<in>set pts. \<exists>q\<in>set pts. snd p \<noteq> snd q"
  proof -
    let ?ps = "map (\<lambda>(x, y). (x, number y)) pts"
    have num: "\<exists>a. snd p = Number a" if "p \<in> set pts" for p
      using that nn by (cases "snd p") force+
    have inj: "number (snd p) \<noteq> number (snd q)"
      if "p \<in> set pts" "q \<in> set pts" "snd p \<noteq> snd q" for p q
      using num [OF that(1)] num [OF that(2)] that(3) by (auto simp: number_def)
    have dx': "\<exists>a\<in>set (map fst ?ps). \<exists>b\<in>set (map fst ?ps). a \<noteq> b"
      using dx by (force simp: case_prod_unfold)
    have dy': "\<exists>a\<in>set (map snd ?ps). \<exists>b\<in>set (map snd ?ps). a \<noteq> b"
      using dy inj by (force simp: case_prod_unfold)
    from linregress_body_finite_r [OF dx' dy'] obtain g v
      where g: "linregress_body ?ps = Inr g" "rvalue g = Finite v" "- 1 \<le> v" "v \<le> 1"
      by blast
    have "linregress pts = Inr g"
      using linregress_numbers [OF len nn] g(1) by simp
    with sq [OF g(3,4)] g(2) show ?thesis
      unfolding r_squared_def by auto
  qed
  from a b show ?thesis by blast
qed

theorem r_squared_nan_or_unit_interval_witness:
  "linregress [(10, Number 1200), (50, Number 3700), (100, Number 6200)]
     = Inr \<lparr>slope = Finite (3375 / 61), intercept = Finite (45700 / 61),
            rvalue = Finite (75000 / sqrt (152500000000 / 27))\<rparr>
   \<and> r_squared \<lparr>slope = Finite (3375 / 61), intercept = Finite (45700 / 61),
            rvalue = Finite (75000 / sqrt (152500000000 / 27))\<rparr> = Finite (243 / 244)
   \<and> (0 :: real) \<le> 243 / 244 \<and> (243 / 244 :: real) \<le> 1"
proof -
  let ?pts = "[(10, Number 1200), (50, Number 3700), (100, Number 6200)]
      :: (real \<times> reading) list"
  have h1: "2 \<le> length ?pts \<and> Nan \<notin> snd ` set ?pts" by simp
  have h2: "\<exists>p\<in>set ?pts. \<exists>q\<in>set ?pts. fst p \<noteq> fst q"
    by (rule bexI [of _ "(10, Number 1200)"], rule bexI [of _ "(50, Number 3700)"]) simp_all
  have h3: "\<exists>p\<in>set ?pts. \<exists>q\<in>set ?pts. snd p \<noteq> snd q"
    by (rule bexI [of _ "(10, Number 1200)"], rule bexI [of _ "(50, Number 3700)"]) simp_all
  from h1 h2 h3 have h: "2 \<le> length ?pts \<and> Nan \<notin> snd ` set ?pts
       \<and> (\<exists>p\<in>set ?pts. \<exists>q\<in>set ?pts. fst p \<noteq> fst q)
       \<and> (\<exists>p\<in>set ?pts. \<exists>q\<in>set ?pts. snd p \<noteq> snd q)"
    by blast
  from r_squared_nan_or_unit_interval [of ?pts] h
  obtain g v where g: "linregress ?pts = Inr g" and r: "r_squared g = Finite v"
    and v: "0 \<le> v" "v \<le> 1"
    by blast
  have geq: "g = \<lparr>slope = Finite (3375 / 61), intercept = Finite (45700 / 61),
            rvalue = Finite (75000 / sqrt (152500000000 / 27))\<rparr>"
    using g linregress_example by simp
  have "Finite v = Finite (243 / 244)"
    using r unfolding geq r_squared_example by simp
  then have "v = 243 / 244" by simp
  with v have "(0 :: real) \<le> 243 / 244 \<and> (243 / 244 :: real) \<le> 1" by blast
  with linregress_example r_squared_example show ?thesis by blast
qed




end
